theory Spec2Isabelle
  imports Main "HOL-Library.Word"
begin

section \<open>The logging header \<^verbatim>\<open>components/log/include/esp_log.h\<close>\<close>

subsection \<open>Levels (lines 90--97)\<close>

datatype esp_log_level_t =
    ESP_LOG_NONE
  | ESP_LOG_ERROR
  | ESP_LOG_WARN
  | ESP_LOG_INFO
  | ESP_LOG_DEBUG
  | ESP_LOG_VERBOSE

text \<open>
  The enumerators in the order of the \<^verbatim>\<open>typedef enum\<close>. None of them has an
  initialiser, so C numbers them by position: the first is 0 and each one after it
  is its predecessor plus 1.
\<close>

definition esp_log_level_t_enumerators :: "esp_log_level_t list" where
  "esp_log_level_t_enumerators =
     [ESP_LOG_NONE, ESP_LOG_ERROR, ESP_LOG_WARN, ESP_LOG_INFO, ESP_LOG_DEBUG, ESP_LOG_VERBOSE]"

fun enum_position :: "'a list \<Rightarrow> 'a \<Rightarrow> nat" where
  "enum_position [] x = 0"
| "enum_position (e # es) x = (if e = x then 0 else Suc (enum_position es x))"

definition level_value :: "esp_log_level_t \<Rightarrow> int" where
  "level_value l = int (enum_position esp_log_level_t_enumerators l)"

subsection \<open>Integer constants and the comparison of the guards\<close>

text \<open>
  The guards of the log macros compare \<^verbatim>\<open>LOG_LOCAL_LEVEL\<close> with an enumeration
  constant. An enumeration constant has type \<^verbatim>\<open>int\<close>. A value of type
  \<^verbatim>\<open>esp_log_level_t\<close> is held in the type the compiler gives the enumeration:
  with no negative enumerator, gcc takes \<^verbatim>\<open>unsigned int\<close>, 32 bits wide on the
  target. A constant is modelled by its 32 bits and its type.
\<close>

datatype cval = Int_val "32 word" | Enum_val "32 word"

text \<open>The number a constant stands for: signed for \<^verbatim>\<open>int\<close>, unsigned for the enumeration.\<close>

fun c_value :: "cval \<Rightarrow> int" where
  "c_value (Int_val a) = sint a"
| "c_value (Enum_val a) = uint a"

definition enumerator :: "esp_log_level_t \<Rightarrow> cval" where
  "enumerator l = Int_val (word_of_int (level_value l))"

text \<open>
  The cast \<^verbatim>\<open>(esp_log_level_t) n\<close> of an integer constant: the value modulo
  \<open>2^32\<close>, so \<open>-1\<close> becomes 4294967295 and \<open>2^32\<close> becomes 0.
\<close>

definition cast_esp_log_level_t :: "int \<Rightarrow> cval" where
  "cast_esp_log_level_t n = Enum_val (word_of_int n)"

text \<open>
  \<^verbatim>\<open>a >= b\<close> after the usual arithmetic conversions: two \<^verbatim>\<open>int\<close>s are compared
  as signed numbers; when one side is unsigned the other is converted and the
  comparison is unsigned.
\<close>

fun c_ge :: "cval \<Rightarrow> cval \<Rightarrow> bool" where
  "c_ge (Int_val a) (Int_val b) = (sint b \<le> sint a)"
| "c_ge (Int_val a) (Enum_val b) = (b \<le> a)"
| "c_ge (Enum_val a) (Int_val b) = (b \<le> a)"
| "c_ge (Enum_val a) (Enum_val b) = (b \<le> a)"

subsection \<open>Build configuration\<close>

text \<open>
  The header reads \<^verbatim>\<open>sdkconfig.h\<close> and the macros the including file or the
  component makefile may define. Their values are parameters of the model. The two
  \<^verbatim>\<open>CONFIG_\<close> levels are integer constants. \<^verbatim>\<open>LOG_LOCAL_LEVEL_predefined\<close> is
  \<open>Some v\<close> when \<^verbatim>\<open>LOG_LOCAL_LEVEL\<close> is defined as the constant \<open>v\<close> before the
  header is included (lines 71--79).
\<close>

record config =
  CONFIG_LOG_COLORS :: bool
  CONFIG_LOG_DEFAULT_LEVEL :: int
  CONFIG_LOG_BOOTLOADER_LEVEL :: int
  BOOTLOADER_BUILD :: bool
  LOG_LOCAL_LEVEL_predefined :: "cval option"

text \<open>Lines 174--180.\<close>

definition LOG_LOCAL_LEVEL :: "config \<Rightarrow> cval" where
  "LOG_LOCAL_LEVEL cfg =
     (case LOG_LOCAL_LEVEL_predefined cfg of
        Some v \<Rightarrow> v
      | None \<Rightarrow>
          if \<not> BOOTLOADER_BUILD cfg then cast_esp_log_level_t (CONFIG_LOG_DEFAULT_LEVEL cfg)
          else cast_esp_log_level_t (CONFIG_LOG_BOOTLOADER_LEVEL cfg))"

subsection \<open>Colours and the line format (lines 149--182)\<close>

definition LOG_COLOR_RED :: string where "LOG_COLOR_RED = ''31''"
definition LOG_COLOR_GREEN :: string where "LOG_COLOR_GREEN = ''32''"
definition LOG_COLOR_BROWN :: string where "LOG_COLOR_BROWN = ''33''"

definition LOG_COLOR :: "string \<Rightarrow> string" where
  "LOG_COLOR COLOR = CHR 0x1B # ''[0;'' @ COLOR @ ''m''"

definition LOG_RESET_COLOR :: "config \<Rightarrow> string" where
  "LOG_RESET_COLOR cfg = (if CONFIG_LOG_COLORS cfg then CHR 0x1B # ''[0m'' else [])"

definition LOG_COLOR_E :: "config \<Rightarrow> string" where
  "LOG_COLOR_E cfg = (if CONFIG_LOG_COLORS cfg then LOG_COLOR LOG_COLOR_RED else [])"

definition LOG_COLOR_W :: "config \<Rightarrow> string" where
  "LOG_COLOR_W cfg = (if CONFIG_LOG_COLORS cfg then LOG_COLOR LOG_COLOR_BROWN else [])"

definition LOG_COLOR_I :: "config \<Rightarrow> string" where
  "LOG_COLOR_I cfg = (if CONFIG_LOG_COLORS cfg then LOG_COLOR LOG_COLOR_GREEN else [])"

definition LOG_COLOR_D :: "config \<Rightarrow> string" where
  "LOG_COLOR_D cfg = (if CONFIG_LOG_COLORS cfg then [] else [])"

definition LOG_COLOR_V :: "config \<Rightarrow> string" where
  "LOG_COLOR_V cfg = (if CONFIG_LOG_COLORS cfg then [] else [])"

text \<open>The token a log macro passes as \<^verbatim>\<open>letter\<close>.\<close>

datatype log_letter = E | W | I | D | V

text \<open>\<^verbatim>\<open>LOG_COLOR_ ## letter\<close> pastes the token onto the macro name.\<close>

fun LOG_COLOR_paste :: "config \<Rightarrow> log_letter \<Rightarrow> string" where
  "LOG_COLOR_paste cfg E = LOG_COLOR_E cfg"
| "LOG_COLOR_paste cfg W = LOG_COLOR_W cfg"
| "LOG_COLOR_paste cfg I = LOG_COLOR_I cfg"
| "LOG_COLOR_paste cfg D = LOG_COLOR_D cfg"
| "LOG_COLOR_paste cfg V = LOG_COLOR_V cfg"

text \<open>\<^verbatim>\<open>#letter\<close> turns the token into a string literal.\<close>

fun stringify :: "log_letter \<Rightarrow> string" where
  "stringify E = ''E''"
| "stringify W = ''W''"
| "stringify I = ''I''"
| "stringify D = ''D''"
| "stringify V = ''V''"

text \<open>Line 182; adjacent string literals are concatenated.\<close>

definition LOG_FORMAT :: "config \<Rightarrow> log_letter \<Rightarrow> string \<Rightarrow> string" where
  "LOG_FORMAT cfg letter format =
     LOG_COLOR_paste cfg letter @ stringify letter @ '' (%d) %s: '' @ format
       @ LOG_RESET_COLOR cfg @ [CHR 0x0A]"

subsection \<open>Variable arguments and the formatted-write convention\<close>

text \<open>
  A variable argument is a 32-bit integer (\<^verbatim>\<open>int\<close>, \<^verbatim>\<open>uint32_t\<close>, a pointer), a
  64-bit integer, a \<^verbatim>\<open>double\<close> (its 64 bits), or a zero-terminated string (its
  characters, without the terminator).
\<close>

datatype vararg = VInt "32 word" | VLong "64 word" | VDouble "64 word" | VStr string

definition digit_char :: "nat \<Rightarrow> char" where
  "digit_char n = ''0123456789'' ! (n mod 10)"

fun dec_nat :: "nat \<Rightarrow> string" where
  "dec_nat n = (if n < 10 then [digit_char n] else dec_nat (n div 10) @ [digit_char n])"

declare dec_nat.simps [simp del]

definition dec_int :: "int \<Rightarrow> string" where
  "dec_int i = (if i < 0 then CHR ''-'' # dec_nat (nat (- i)) else dec_nat (nat i))"

text \<open>
  What a \<^verbatim>\<open>vprintf\<close>-like function (the installed sink, or the ROM's
  \<^verbatim>\<open>ets_printf\<close>) writes for a format and its arguments. A directive is
  \<^verbatim>\<open>%\<close>, any flags, width, precision and length, and a conversion character.
  The plain directives \<^verbatim>\<open>%%\<close>, \<^verbatim>\<open>%d\<close>, \<^verbatim>\<open>%u\<close> and \<^verbatim>\<open>%s\<close> are written
  out here; \<^verbatim>\<open>%d\<close> reads its argument as a signed \<^verbatim>\<open>int\<close>. Every other
  directive (\<^verbatim>\<open>%x\<close>, \<^verbatim>\<open>%5d\<close>, \<^verbatim>\<open>%.1f\<close>, ...) is formatted by the function
  \<open>other\<close>, a parameter: it gets the directive's text and the arguments still
  unread, and gives what is written and the arguments left. The result is \<open>None\<close>
  where C leaves the behaviour undefined (a missing or ill-typed argument, an
  incomplete directive). Surplus arguments are ignored.
\<close>

type_synonym conversion = "string \<Rightarrow> vararg list \<Rightarrow> (string \<times> vararg list) option"

definition is_modifier :: "char \<Rightarrow> bool" where
  "is_modifier c = (c \<in> set ''-+ #0123456789.*hlLqjzt'')"

definition is_conversion :: "char \<Rightarrow> bool" where
  "is_conversion c = (c \<in> set ''diouxXeEfFgGaAcspn%'')"

definition convert :: "conversion \<Rightarrow> string \<Rightarrow> vararg list \<Rightarrow> (string \<times> vararg list) option" where
  "convert other d args =
     (if d = ''%'' then Some (''%'', args)
      else if d = ''d'' then
        (case args of VInt n # args' \<Rightarrow> Some (dec_int (sint n), args') | _ \<Rightarrow> None)
      else if d = ''u'' then
        (case args of VInt n # args' \<Rightarrow> Some (dec_nat (unat n), args') | _ \<Rightarrow> None)
      else if d = ''s'' then
        (case args of VStr t # args' \<Rightarrow> Some (t, args') | _ \<Rightarrow> None)
      else other d args)"

text \<open>
  The scan of the format. The second argument is \<open>None\<close> between directives and
  \<open>Some d\<close> inside one, \<open>d\<close> being the characters read since its \<^verbatim>\<open>%\<close>.
\<close>

fun vformat_scan :: "conversion \<Rightarrow> string option \<Rightarrow> string \<Rightarrow> vararg list \<Rightarrow> string option" where
  "vformat_scan other None [] args = Some []"
| "vformat_scan other None (c # cs) args =
     (if c = CHR ''%'' then vformat_scan other (Some []) cs args
      else map_option ((#) c) (vformat_scan other None cs args))"
| "vformat_scan other (Some d) [] args = None"
| "vformat_scan other (Some d) (c # cs) args =
     (if is_conversion c then
        (case convert other (d @ [c]) args of
           None \<Rightarrow> None
         | Some (written, args') \<Rightarrow> map_option ((@) written) (vformat_scan other None cs args'))
      else if is_modifier c then vformat_scan other (Some (d @ [c])) cs args
      else None)"

definition vformat :: "conversion \<Rightarrow> string \<Rightarrow> vararg list \<Rightarrow> string option" where
  "vformat other format args = vformat_scan other None format args"

text \<open>
  A literal tail appended to a format is read as it stands unless its first
  character would continue a directive left open at the end of the format.
\<close>

definition no_directive_head :: "string \<Rightarrow> bool" where
  "no_directive_head lit =
     (case lit of
        [] \<Rightarrow> True
      | c # cs \<Rightarrow> \<not> is_conversion c \<and> \<not> is_modifier c)"

subsection \<open>Process-wide state and the trace of calls\<close>

text \<open>
  \<^verbatim>\<open>vprintf_like_t\<close> (line 99) is a pointer to a function; the model keeps the
  address.
\<close>

type_synonym vprintf_like_t = nat

text \<open>
  The trace records, in order, each entry into \<^verbatim>\<open>esp_log_write\<close>, each call of
  the installed sink with the format and argument list it receives, each call of
  the ROM primitive \<^verbatim>\<open>ets_printf\<close>, and each call of \<^verbatim>\<open>esp_log_timestamp\<close>
  that a macro makes.
\<close>

datatype event =
    Call_esp_log_write esp_log_level_t string string "vararg list"
  | Call_sink vprintf_like_t string "vararg list"
  | Call_ets_printf string "vararg list"
  | Call_esp_log_timestamp

fun is_output :: "event \<Rightarrow> bool" where
  "is_output (Call_esp_log_write l t f a) = False"
| "is_output (Call_sink p f a) = True"
| "is_output (Call_ets_printf f a) = True"
| "is_output Call_esp_log_timestamp = False"

text \<open>The characters an output call writes, given how other directives are formatted.\<close>

fun rendered :: "conversion \<Rightarrow> event \<Rightarrow> string option" where
  "rendered other (Call_esp_log_write l t f a) = None"
| "rendered other (Call_sink p f a) = vformat other f a"
| "rendered other (Call_ets_printf f a) = vformat other f a"
| "rendered other Call_esp_log_timestamp = None"

fun sinks_of :: "event list \<Rightarrow> vprintf_like_t list" where
  "sinks_of [] = []"
| "sinks_of (Call_sink p f a # es) = p # sinks_of es"
| "sinks_of (e # es) = sinks_of es"

record log_state =
  registry :: "string \<rightharpoonup> esp_log_level_t"
  default_level :: esp_log_level_t
  sink :: vprintf_like_t
  scheduler_running :: bool
  cycle_ms :: nat
  tick_ms :: nat
  trace :: "event list"

definition outputs :: "log_state \<Rightarrow> event list" where
  "outputs s = filter is_output (trace s)"

text \<open>The ROM primitive \<^verbatim>\<open>ets_printf\<close>: it writes to the console directly.\<close>

definition ets_printf :: "string \<Rightarrow> vararg list \<Rightarrow> log_state \<Rightarrow> log_state" where
  "ets_printf format args s = s\<lparr>trace := trace s @ [Call_ets_printf format args]\<rparr>"

subsection \<open>The functions the header declares (lines 101--146)\<close>

text \<open>
  The header declares these four functions; their bodies are in a source file
  that is not part of the fragment. Each model below follows the header's
  documentation comment and the specification.
\<close>

text \<open>
  Modelled from the spec: the registry lookup inside the absent body of
  \<^verbatim>\<open>esp_log_write\<close>. "Level Registry: process-wide mapping from Tag to Level
  ...; absent entries fall back to a global default level."
\<close>

definition level_for_tag :: "log_state \<Rightarrow> string \<Rightarrow> esp_log_level_t" where
  "level_for_tag s tag = (case registry s tag of Some l \<Rightarrow> l | None \<Rightarrow> default_level s)"

text \<open>
  Modelled from the spec: the body of \<^verbatim>\<open>esp_log_level_set\<close> is absent.
  "upserts the Level Registry entry for tag (or resets all entries if tag == "*")".
  The header (lines 106--107) says: "Value "*" resets log level for all tags to the
  given value", so the default for tags without an entry is set as well.
\<close>

definition esp_log_level_set :: "string \<Rightarrow> esp_log_level_t \<Rightarrow> log_state \<Rightarrow> log_state" where
  "esp_log_level_set tag level s =
     (if tag = ''*'' then
        s\<lparr>registry := (\<lambda>t. case registry s t of None \<Rightarrow> None | Some old \<Rightarrow> Some level),
          default_level := level\<rparr>
      else s\<lparr>registry := (registry s)(tag \<mapsto> level)\<rparr>)"

text \<open>
  Modelled from the spec: the body of \<^verbatim>\<open>esp_log_set_vprintf\<close> is absent.
  "replaces the process-wide Sink; takes effect for all subsequent writes".
\<close>

definition esp_log_set_vprintf :: "vprintf_like_t \<Rightarrow> log_state \<Rightarrow> log_state" where
  "esp_log_set_vprintf func s = s\<lparr>sink := func\<rparr>"

text \<open>
  Modelled from the spec: the body of \<^verbatim>\<open>esp_log_write\<close> is absent.
  "compares level against the Level Registry value for tag (or the default); if level
  is more verbose, the call is a no-op (returns without output). Otherwise ... passes
  the composed line to the current Sink". The sink has the signature of
  \<^verbatim>\<open>vprintf\<close>: it receives the format and the argument list. The function is
  declared \<^verbatim>\<open>void\<close> (line 131), so the sink's count is dropped.
\<close>

definition esp_log_write ::
  "esp_log_level_t \<Rightarrow> string \<Rightarrow> string \<Rightarrow> vararg list \<Rightarrow> log_state \<Rightarrow> log_state" where
  "esp_log_write level tag format args s =
     (let s1 = s\<lparr>trace := trace s @ [Call_esp_log_write level tag format args]\<rparr> in
      if level_value level > level_value (level_for_tag s tag) then s1
      else s1\<lparr>trace := trace s1 @ [Call_sink (sink s) format args]\<rparr>)"

text \<open>
  Modelled from the spec: the body of \<^verbatim>\<open>esp_log_timestamp\<close> is absent.
  "milliseconds since an implementation-defined epoch: CPU-cycle-derived before the
  scheduler starts, tick-derived after". \<open>cycle_ms\<close> and \<open>tick_ms\<close> are the
  milliseconds since that epoch as each source gives them, without a bound.
\<close>

definition source_ms :: "log_state \<Rightarrow> nat" where
  "source_ms s = (if scheduler_running s then tick_ms s else cycle_ms s)"

text \<open>
  Modelled from the spec: the body of \<^verbatim>\<open>esp_log_timestamp\<close> is absent.
  "overflow is explicitly unhandled (wrap-around accepted)"; the header (line 142):
  "For now, we ignore millisecond counter overflow". The result type is
  \<^verbatim>\<open>uint32_t\<close> (line 146).
\<close>

definition esp_log_timestamp :: "log_state \<Rightarrow> 32 word" where
  "esp_log_timestamp s = word_of_nat (source_ms s)"

text \<open>
  Modelled from the spec: what happens to the two sources behind the absent body of
  \<^verbatim>\<open>esp_log_timestamp\<close>. "monotonically non-decreasing counter; source switches
  from a cycle counter to a scheduler tick counter once the scheduler is running":
  time passing adds to the source in use, and at the start of the scheduler the
  tick source takes the count over from the cycle source, so the milliseconds since
  the epoch go on from where they stand.
\<close>

definition elapse :: "nat \<Rightarrow> log_state \<Rightarrow> log_state" where
  "elapse d s =
     (if scheduler_running s then s\<lparr>tick_ms := tick_ms s + d\<rparr>
      else s\<lparr>cycle_ms := cycle_ms s + d\<rparr>)"

definition scheduler_start :: "log_state \<Rightarrow> log_state" where
  "scheduler_start s =
     (if scheduler_running s then s
      else s\<lparr>scheduler_running := True, tick_ms := cycle_ms s\<rparr>)"

subsection \<open>The declared signatures (lines 99--146)\<close>

datatype c_type =
    C_void
  | C_int
  | C_uint32_t
  | C_esp_log_level_t
  | C_const_char_ptr
  | C_va_list
  | C_vprintf_like_t
  | C_ellipsis

record c_signature =
  returns :: c_type
  parameters :: "c_type list"

text \<open>Line 99: the function type \<^verbatim>\<open>vprintf_like_t\<close> points to.\<close>

definition vprintf_like_t_signature :: c_signature where
  "vprintf_like_t_signature = \<lparr>returns = C_int, parameters = [C_const_char_ptr, C_va_list]\<rparr>"

text \<open>Line 111.\<close>

definition esp_log_level_set_signature :: c_signature where
  "esp_log_level_set_signature =
     \<lparr>returns = C_void, parameters = [C_const_char_ptr, C_esp_log_level_t]\<rparr>"

text \<open>Line 121.\<close>

definition esp_log_set_vprintf_signature :: c_signature where
  "esp_log_set_vprintf_signature = \<lparr>returns = C_void, parameters = [C_vprintf_like_t]\<rparr>"

text \<open>Line 131.\<close>

definition esp_log_write_signature :: c_signature where
  "esp_log_write_signature =
     \<lparr>returns = C_void,
      parameters = [C_esp_log_level_t, C_const_char_ptr, C_const_char_ptr, C_ellipsis]\<rparr>"

text \<open>Line 146.\<close>

definition esp_log_timestamp_signature :: c_signature where
  "esp_log_timestamp_signature = \<lparr>returns = C_uint32_t, parameters = []\<rparr>"

subsection \<open>The log macros (lines 184--217)\<close>

text \<open>
  A macro expands to program text, so its expansion is modelled as a statement:
  an \<^verbatim>\<open>if\<close> whose condition compares two constants of the build, around one call.
  \<^verbatim>\<open>esp_log_timestamp()\<close> is an argument expression of that call; the tag and
  the caller's arguments are values.
\<close>

datatype arg_expr = Timestamp_call | Value vararg

datatype stmt =
    Skip
  | Ets_printf_call string "arg_expr list"
  | Esp_log_write_call esp_log_level_t string string "arg_expr list"
  | If_ge cval cval stmt

text \<open>
  Running a statement. The arguments of a call are evaluated first; each
  \<^verbatim>\<open>esp_log_timestamp()\<close> among them is a call of its own.
\<close>

fun eval_args :: "arg_expr list \<Rightarrow> log_state \<Rightarrow> vararg list \<times> log_state" where
  "eval_args [] s = ([], s)"
| "eval_args (Timestamp_call # es) s =
     (case eval_args es (s\<lparr>trace := trace s @ [Call_esp_log_timestamp]\<rparr>) of
        (vs, s') \<Rightarrow> (VInt (esp_log_timestamp s) # vs, s'))"
| "eval_args (Value v # es) s =
     (case eval_args es s of (vs, s') \<Rightarrow> (v # vs, s'))"

fun exec :: "stmt \<Rightarrow> log_state \<Rightarrow> log_state" where
  "exec Skip s = s"
| "exec (Ets_printf_call format es) s =
     (case eval_args es s of (vs, s') \<Rightarrow> ets_printf format vs s')"
| "exec (Esp_log_write_call level tag format es) s =
     (case eval_args es s of (vs, s') \<Rightarrow> esp_log_write level tag format vs s')"
| "exec (If_ge a b body) s = (if c_ge a b then exec body s else s)"

definition ESP_EARLY_LOGE :: "config \<Rightarrow> string \<Rightarrow> string \<Rightarrow> vararg list \<Rightarrow> stmt" where
  "ESP_EARLY_LOGE cfg tag format args =
     If_ge (LOG_LOCAL_LEVEL cfg) (enumerator ESP_LOG_ERROR)
       (Ets_printf_call (LOG_FORMAT cfg E format)
          (Timestamp_call # Value (VStr tag) # map Value args))"

definition ESP_LOGE :: "config \<Rightarrow> string \<Rightarrow> string \<Rightarrow> vararg list \<Rightarrow> stmt" where
  "ESP_LOGE cfg tag format args =
     (if \<not> BOOTLOADER_BUILD cfg then
        If_ge (LOG_LOCAL_LEVEL cfg) (enumerator ESP_LOG_ERROR)
          (Esp_log_write_call ESP_LOG_ERROR tag (LOG_FORMAT cfg E format)
             (Timestamp_call # Value (VStr tag) # map Value args))
      else ESP_EARLY_LOGE cfg tag format args)"

definition ESP_EARLY_LOGW :: "config \<Rightarrow> string \<Rightarrow> string \<Rightarrow> vararg list \<Rightarrow> stmt" where
  "ESP_EARLY_LOGW cfg tag format args =
     If_ge (LOG_LOCAL_LEVEL cfg) (enumerator ESP_LOG_WARN)
       (Ets_printf_call (LOG_FORMAT cfg W format)
          (Timestamp_call # Value (VStr tag) # map Value args))"

definition ESP_LOGW :: "config \<Rightarrow> string \<Rightarrow> string \<Rightarrow> vararg list \<Rightarrow> stmt" where
  "ESP_LOGW cfg tag format args =
     (if \<not> BOOTLOADER_BUILD cfg then
        If_ge (LOG_LOCAL_LEVEL cfg) (enumerator ESP_LOG_WARN)
          (Esp_log_write_call ESP_LOG_WARN tag (LOG_FORMAT cfg W format)
             (Timestamp_call # Value (VStr tag) # map Value args))
      else ESP_EARLY_LOGW cfg tag format args)"

definition ESP_EARLY_LOGI :: "config \<Rightarrow> string \<Rightarrow> string \<Rightarrow> vararg list \<Rightarrow> stmt" where
  "ESP_EARLY_LOGI cfg tag format args =
     If_ge (LOG_LOCAL_LEVEL cfg) (enumerator ESP_LOG_INFO)
       (Ets_printf_call (LOG_FORMAT cfg I format)
          (Timestamp_call # Value (VStr tag) # map Value args))"

definition ESP_LOGI :: "config \<Rightarrow> string \<Rightarrow> string \<Rightarrow> vararg list \<Rightarrow> stmt" where
  "ESP_LOGI cfg tag format args =
     (if \<not> BOOTLOADER_BUILD cfg then
        If_ge (LOG_LOCAL_LEVEL cfg) (enumerator ESP_LOG_INFO)
          (Esp_log_write_call ESP_LOG_INFO tag (LOG_FORMAT cfg I format)
             (Timestamp_call # Value (VStr tag) # map Value args))
      else ESP_EARLY_LOGI cfg tag format args)"

definition ESP_EARLY_LOGD :: "config \<Rightarrow> string \<Rightarrow> string \<Rightarrow> vararg list \<Rightarrow> stmt" where
  "ESP_EARLY_LOGD cfg tag format args =
     If_ge (LOG_LOCAL_LEVEL cfg) (enumerator ESP_LOG_DEBUG)
       (Ets_printf_call (LOG_FORMAT cfg D format)
          (Timestamp_call # Value (VStr tag) # map Value args))"

definition ESP_LOGD :: "config \<Rightarrow> string \<Rightarrow> string \<Rightarrow> vararg list \<Rightarrow> stmt" where
  "ESP_LOGD cfg tag format args =
     (if \<not> BOOTLOADER_BUILD cfg then
        If_ge (LOG_LOCAL_LEVEL cfg) (enumerator ESP_LOG_DEBUG)
          (Esp_log_write_call ESP_LOG_DEBUG tag (LOG_FORMAT cfg D format)
             (Timestamp_call # Value (VStr tag) # map Value args))
      else ESP_EARLY_LOGD cfg tag format args)"

definition ESP_EARLY_LOGV :: "config \<Rightarrow> string \<Rightarrow> string \<Rightarrow> vararg list \<Rightarrow> stmt" where
  "ESP_EARLY_LOGV cfg tag format args =
     If_ge (LOG_LOCAL_LEVEL cfg) (enumerator ESP_LOG_VERBOSE)
       (Ets_printf_call (LOG_FORMAT cfg V format)
          (Timestamp_call # Value (VStr tag) # map Value args))"

definition ESP_LOGV :: "config \<Rightarrow> string \<Rightarrow> string \<Rightarrow> vararg list \<Rightarrow> stmt" where
  "ESP_LOGV cfg tag format args =
     (if \<not> BOOTLOADER_BUILD cfg then
        If_ge (LOG_LOCAL_LEVEL cfg) (enumerator ESP_LOG_VERBOSE)
          (Esp_log_write_call ESP_LOG_VERBOSE tag (LOG_FORMAT cfg V format)
             (Timestamp_call # Value (VStr tag) # map Value args))
      else ESP_EARLY_LOGV cfg tag format args)"

text \<open>
  The five pairs of macros, selected by their letter, and the level each letter's
  macros compare the ceiling with and pass on.
\<close>

fun ESP_EARLY_LOGx ::
  "log_letter \<Rightarrow> config \<Rightarrow> string \<Rightarrow> string \<Rightarrow> vararg list \<Rightarrow> stmt" where
  "ESP_EARLY_LOGx E = ESP_EARLY_LOGE"
| "ESP_EARLY_LOGx W = ESP_EARLY_LOGW"
| "ESP_EARLY_LOGx I = ESP_EARLY_LOGI"
| "ESP_EARLY_LOGx D = ESP_EARLY_LOGD"
| "ESP_EARLY_LOGx V = ESP_EARLY_LOGV"

fun ESP_LOGx ::
  "log_letter \<Rightarrow> config \<Rightarrow> string \<Rightarrow> string \<Rightarrow> vararg list \<Rightarrow> stmt" where
  "ESP_LOGx E = ESP_LOGE"
| "ESP_LOGx W = ESP_LOGW"
| "ESP_LOGx I = ESP_LOGI"
| "ESP_LOGx D = ESP_LOGD"
| "ESP_LOGx V = ESP_LOGV"

fun static_level :: "log_letter \<Rightarrow> esp_log_level_t" where
  "static_level E = ESP_LOG_ERROR"
| "static_level W = ESP_LOG_WARN"
| "static_level I = ESP_LOG_INFO"
| "static_level D = ESP_LOG_DEBUG"
| "static_level V = ESP_LOG_VERBOSE"

subsection \<open>What the build can remove, and what a statement calls\<close>

text \<open>
  Both operands of a guard are constants, so the build can decide every guard: a
  statement whose guard is false is dropped, one whose guard is true is left
  without the test.
\<close>

fun fold_constants :: "stmt \<Rightarrow> stmt" where
  "fold_constants (If_ge a b body) = (if c_ge a b then fold_constants body else Skip)"
| "fold_constants st = st"

text \<open>The calls and the tests a statement is compiled to.\<close>

fun code_size :: "stmt \<Rightarrow> nat" where
  "code_size Skip = 0"
| "code_size (Ets_printf_call format es) = 1"
| "code_size (Esp_log_write_call level tag format es) = 1"
| "code_size (If_ge a b body) = Suc (code_size body)"

fun branches :: "stmt \<Rightarrow> nat" where
  "branches (If_ge a b body) = Suc (branches body)"
| "branches st = 0"

datatype callee = Fn_ets_printf | Fn_esp_log_write | Fn_esp_log_timestamp

fun arg_callees :: "arg_expr \<Rightarrow> callee list" where
  "arg_callees Timestamp_call = [Fn_esp_log_timestamp]"
| "arg_callees (Value v) = []"

fun callees :: "stmt \<Rightarrow> callee list" where
  "callees Skip = []"
| "callees (Ets_printf_call format es) = Fn_ets_printf # concat (map arg_callees es)"
| "callees (Esp_log_write_call level tag format es) =
     Fn_esp_log_write # concat (map arg_callees es)"
| "callees (If_ge a b body) = callees body"

text \<open>
  What a function needs from the system before it can run (the header, lines
  59--61, names the heap allocator and the syscalls) is a property of its body, which
  the header does not hold: it is a parameter. A statement can be used where
  everything its callees need is there.
\<close>

datatype service = Heap_allocator | Syscalls | Scheduler

definition usable :: "(callee \<Rightarrow> service set) \<Rightarrow> service set \<Rightarrow> stmt \<Rightarrow> bool" where
  "usable needs available st = list_all (\<lambda>f. needs f \<subseteq> available) (callees st)"

subsection \<open>Runs\<close>

text \<open>A run of calls of the two run-time functions that leave the sink alone.\<close>

datatype request =
    Level_set string esp_log_level_t
  | Write esp_log_level_t string string "vararg list"

fun perform :: "request \<Rightarrow> log_state \<Rightarrow> log_state" where
  "perform (Level_set tag level) s = esp_log_level_set tag level s"
| "perform (Write level tag format args) s = esp_log_write level tag format args s"

fun perform_all :: "request list \<Rightarrow> log_state \<Rightarrow> log_state" where
  "perform_all [] s = s"
| "perform_all (r # rs) s = perform_all rs (perform r s)"

text \<open>
  What can happen between two calls of \<^verbatim>\<open>esp_log_timestamp\<close> in one execution
  context: time passes, the scheduler starts, a request is served.
\<close>

datatype happening = Elapse nat | Scheduler_start | Request request

fun happen :: "happening \<Rightarrow> log_state \<Rightarrow> log_state" where
  "happen (Elapse d) s = elapse d s"
| "happen Scheduler_start s = scheduler_start s"
| "happen (Request r) s = perform r s"

fun happen_all :: "happening list \<Rightarrow> log_state \<Rightarrow> log_state" where
  "happen_all [] s = s"
| "happen_all (h # hs) s = happen_all hs (happen h s)"

subsection \<open>Concrete builds and states\<close>

text \<open>
  An application build with colours and the default ceiling INFO, the same build for
  the bootloader (ceiling WARN), a file of the application that defines
  \<^verbatim>\<open>LOG_LOCAL_LEVEL\<close> as \<^verbatim>\<open>ESP_LOG_VERBOSE\<close> (line 74), and a state before the
  scheduler has started: no tag has a level of its own, the default level is the
  build's default ceiling (header, line 36), 5 ms have passed.
\<close>

definition app_config :: config where
  "app_config =
     \<lparr>CONFIG_LOG_COLORS = True, CONFIG_LOG_DEFAULT_LEVEL = 3,
      CONFIG_LOG_BOOTLOADER_LEVEL = 2, BOOTLOADER_BUILD = False,
      LOG_LOCAL_LEVEL_predefined = None\<rparr>"

definition bootloader_config :: config where
  "bootloader_config = app_config\<lparr>BOOTLOADER_BUILD := True\<rparr>"

definition verbose_config :: config where
  "verbose_config =
     app_config\<lparr>LOG_LOCAL_LEVEL_predefined := Some (enumerator ESP_LOG_VERBOSE)\<rparr>"

definition early_state :: log_state where
  "early_state =
     \<lparr>registry = Map.empty, default_level = ESP_LOG_INFO, sink = 0,
      scheduler_running = False, cycle_ms = 5, tick_ms = 0, trace = []\<rparr>"

text \<open>
  The spec's example: \<^verbatim>\<open>set_level("net", WARN)\<close>.
\<close>

definition net_warn_state :: log_state where
  "net_warn_state = esp_log_level_set ''net'' ESP_LOG_WARN early_state"


text \<open>
  The scheduler running and the tick source at \<open>2^32 - 1\<close> ms.
\<close>

definition before_wrap_state :: log_state where
  "before_wrap_state = early_state\<lparr>scheduler_running := True, tick_ms := 4294967295\<rparr>"

text \<open>A sink or ROM routine that knows no directive beyond the plain ones.\<close>

definition plain_only :: conversion where
  "plain_only d args = None"

text \<open>
  Requirements under which \<^verbatim>\<open>esp_log_write\<close> needs the heap and the scheduler
  and the two functions the early macros call need nothing.
\<close>

fun early_needs :: "callee \<Rightarrow> service set" where
  "early_needs Fn_ets_printf = {}"
| "early_needs Fn_esp_log_timestamp = {}"
| "early_needs Fn_esp_log_write = {Heap_allocator, Scheduler}"

section \<open>Properties\<close>

subsection \<open>Shared facts\<close>

lemma level_value_simps [simp]:
  "level_value ESP_LOG_NONE = 0"
  "level_value ESP_LOG_ERROR = 1"
  "level_value ESP_LOG_WARN = 2"
  "level_value ESP_LOG_INFO = 3"
  "level_value ESP_LOG_DEBUG = 4"
  "level_value ESP_LOG_VERBOSE = 5"
  by (simp_all add: level_value_def esp_log_level_t_enumerators_def)

lemma esp_log_level_t_UNIV:
  "(UNIV :: esp_log_level_t set) = set esp_log_level_t_enumerators"
proof -
  have "l \<in> set esp_log_level_t_enumerators" for l
    by (cases l) (simp_all add: esp_log_level_t_enumerators_def)
  then show ?thesis by blast
qed

text \<open>
  A guard holds exactly when the level's number is at most the number the ceiling
  stands for, in its own type.
\<close>

lemma c_ge_enumerator: "c_ge v (enumerator l) = (level_value l \<le> c_value v)"
proof (cases v)
  case (Int_val a)
  then show ?thesis by (cases l) (simp_all add: enumerator_def)
next
  case (Enum_val a)
  then show ?thesis by (cases l) (simp_all add: enumerator_def word_le_def)
qed

text \<open>The cast at work: a negative or an oversized configured level.\<close>

lemma cast_examples:
  "c_value (LOG_LOCAL_LEVEL (app_config\<lparr>CONFIG_LOG_DEFAULT_LEVEL := - 1\<rparr>)) = 4294967295"
  "c_value (LOG_LOCAL_LEVEL (app_config\<lparr>CONFIG_LOG_DEFAULT_LEVEL := 4294967296\<rparr>)) = 0"
proof -
  have m: "(- 1 :: 32 word) = 4294967295"
    by simp
  show "c_value (LOG_LOCAL_LEVEL (app_config\<lparr>CONFIG_LOG_DEFAULT_LEVEL := - 1\<rparr>))
      = 4294967295"
    by (simp add: LOG_LOCAL_LEVEL_def app_config_def cast_esp_log_level_t_def m)
  show "c_value (LOG_LOCAL_LEVEL (app_config\<lparr>CONFIG_LOG_DEFAULT_LEVEL := 4294967296\<rparr>)) = 0"
    by (simp add: LOG_LOCAL_LEVEL_def app_config_def cast_esp_log_level_t_def)
qed

lemmas macro_defs =
  ESP_EARLY_LOGE_def ESP_EARLY_LOGW_def ESP_EARLY_LOGI_def ESP_EARLY_LOGD_def ESP_EARLY_LOGV_def
  ESP_LOGE_def ESP_LOGW_def ESP_LOGI_def ESP_LOGD_def ESP_LOGV_def

text \<open>The ten macros differ only in the letter and the level that goes with it.\<close>

lemma ESP_EARLY_LOGx_unfold:
  "ESP_EARLY_LOGx x cfg tag format args =
     If_ge (LOG_LOCAL_LEVEL cfg) (enumerator (static_level x))
       (Ets_printf_call (LOG_FORMAT cfg x format)
          (Timestamp_call # Value (VStr tag) # map Value args))"
  by (cases x) (simp_all add: macro_defs)

lemma ESP_LOGx_unfold:
  "ESP_LOGx x cfg tag format args =
     (if \<not> BOOTLOADER_BUILD cfg then
        If_ge (LOG_LOCAL_LEVEL cfg) (enumerator (static_level x))
          (Esp_log_write_call (static_level x) tag (LOG_FORMAT cfg x format)
             (Timestamp_call # Value (VStr tag) # map Value args))
      else ESP_EARLY_LOGx x cfg tag format args)"
  by (cases x) (simp_all add: macro_defs)

lemma eval_args_values [simp]: "eval_args (map Value args) s = (args, s)"
  by (induction args) simp_all

lemma arg_callees_values [simp]: "concat (map arg_callees (map Value args)) = []"
  by (induction args) simp_all

lemma exec_ESP_EARLY_LOGx:
  "exec (ESP_EARLY_LOGx x cfg tag format args) s =
     (if level_value (static_level x) \<le> c_value (LOG_LOCAL_LEVEL cfg) then
        ets_printf (LOG_FORMAT cfg x format) (VInt (esp_log_timestamp s) # VStr tag # args)
          (s\<lparr>trace := trace s @ [Call_esp_log_timestamp]\<rparr>)
      else s)"
  by (simp add: ESP_EARLY_LOGx_unfold c_ge_enumerator)


lemma exec_fold_constants: "exec (fold_constants st) s = exec st s"
  by (induction st) simp_all

lemma branches_fold_constants: "branches (fold_constants st) = 0"
  by (induction st) simp_all

lemma app_ceiling [simp]: "c_value (LOG_LOCAL_LEVEL app_config) = 3"
  by (simp add: LOG_LOCAL_LEVEL_def app_config_def cast_esp_log_level_t_def)

lemma bootloader_ceiling [simp]: "c_value (LOG_LOCAL_LEVEL bootloader_config) = 2"
  by (simp add: LOG_LOCAL_LEVEL_def app_config_def bootloader_config_def
      cast_esp_log_level_t_def)

lemma verbose_ceiling [simp]: "c_value (LOG_LOCAL_LEVEL verbose_config) = 5"
  by (simp add: LOG_LOCAL_LEVEL_def app_config_def verbose_config_def enumerator_def)

lemma config_facts [simp]:
  "\<not> BOOTLOADER_BUILD app_config"
  "\<not> BOOTLOADER_BUILD verbose_config"
  "BOOTLOADER_BUILD bootloader_config"
  "CONFIG_LOG_COLORS app_config"
  "CONFIG_LOG_COLORS verbose_config"
  "CONFIG_LOG_COLORS bootloader_config"
  by (simp_all add: app_config_def verbose_config_def bootloader_config_def)

lemma esp_log_timestamp_level_set [simp]:
  "esp_log_timestamp (esp_log_level_set t l s) = esp_log_timestamp s"
  by (simp add: esp_log_timestamp_def source_ms_def esp_log_level_set_def)

lemma trace_level_set [simp]: "trace (esp_log_level_set t l s) = trace s"
  by (simp add: esp_log_level_set_def)

lemma sink_level_set [simp]: "sink (esp_log_level_set t l s) = sink s"
  by (simp add: esp_log_level_set_def)

lemma trace_esp_log_write:
  "trace (esp_log_write level tag format args s) =
     trace s @ Call_esp_log_write level tag format args #
       (if level_value level > level_value (level_for_tag s tag) then []
        else [Call_sink (sink s) format args])"
  by (simp add: esp_log_write_def Let_def)

lemma sink_esp_log_write [simp]: "sink (esp_log_write level tag format args s) = sink s"
  by (simp add: esp_log_write_def Let_def)

lemma esp_log_write_keeps [simp]:
  "registry (esp_log_write level tag format args s) = registry s"
  "default_level (esp_log_write level tag format args s) = default_level s"
  by (simp_all add: esp_log_write_def Let_def)

lemma outputs_esp_log_write:
  "outputs (esp_log_write level tag format args s) =
     (if level_value level > level_value (level_for_tag s tag) then outputs s
      else outputs s @ [Call_sink (sink s) format args])"
  by (simp add: outputs_def trace_esp_log_write)

lemma timestamp_call_frame [simp]:
  "level_for_tag (s\<lparr>trace := tr\<rparr>) tag = level_for_tag s tag"
  "outputs (s\<lparr>trace := trace s @ [Call_esp_log_timestamp]\<rparr>) = outputs s"
  by (simp_all add: level_for_tag_def outputs_def split: option.splits)

lemma net_warn_level: "level_for_tag net_warn_state ''net'' = ESP_LOG_WARN"
  by (simp add: net_warn_state_def level_for_tag_def esp_log_level_set_def)

lemma net_warn_facts:
  "esp_log_timestamp net_warn_state = 5"
  "outputs net_warn_state = []"
  "sink net_warn_state = 0"
  "registry net_warn_state ''net'' = Some ESP_LOG_WARN"
  by (simp_all add: net_warn_state_def early_state_def esp_log_timestamp_def source_ms_def
      outputs_def esp_log_level_set_def)


lemma early_facts:
  "esp_log_timestamp early_state = 5"
  "outputs early_state = []"
  "trace early_state = []"
  by (simp_all add: early_state_def esp_log_timestamp_def source_ms_def outputs_def)

subsection \<open>Formatting a literal head or tail\<close>

lemma scan_literal_prefix:
  "CHR ''%'' \<notin> set lit \<Longrightarrow>
     vformat_scan other None (lit @ fmt) args =
       map_option ((@) lit) (vformat_scan other None fmt args)"
proof (induction lit)
  case Nil
  show ?case by (cases "vformat_scan other None fmt args") simp_all
next
  case (Cons c lit)
  then have "c \<noteq> CHR ''%''" and "CHR ''%'' \<notin> set lit" by auto
  with Cons.IH show ?case
    by (cases "vformat_scan other None fmt args") simp_all
qed

lemma scan_literal:
  "CHR ''%'' \<notin> set lit \<Longrightarrow> vformat_scan other None lit args = Some lit"
  using scan_literal_prefix [of lit other "[]" args] by simp

lemma scan_literal_suffix:
  "CHR ''%'' \<notin> set lit \<Longrightarrow> no_directive_head lit \<Longrightarrow>
     vformat_scan other st (fmt @ lit) args =
       map_option (\<lambda>m. m @ lit) (vformat_scan other st fmt args)"
proof (induction fmt arbitrary: st args)
  case Nil
  show ?case
  proof (cases st)
    case None
    with Nil show ?thesis by (simp add: scan_literal)
  next
    case (Some d)
    with Nil show ?thesis by (cases lit) (simp_all add: no_directive_head_def)
  qed
next
  case (Cons c fmt)
  show ?case
  proof (cases st)
    case None
    with Cons show ?thesis by (simp add: option.map_comp comp_def)
  next
    case (Some d)
    show ?thesis
    proof (cases "is_conversion c")
      case True
      show ?thesis
      proof (cases "convert other (d @ [c]) args")
        case None
        with Some True show ?thesis by simp
      next
        case (Some r)
        obtain written args' where r: "r = (written, args')" by (cases r)
        have "vformat_scan other None (fmt @ lit) args' =
            map_option (\<lambda>m. m @ lit) (vformat_scan other None fmt args')"
          using Cons by blast
        with \<open>st = Some d\<close> True Some r show ?thesis
          by (simp add: option.map_comp comp_def)
      qed
    next
      case False
      with Some Cons show ?thesis by simp
    qed
  qed
qed

lemmas color_defs =
  LOG_COLOR_E_def LOG_COLOR_W_def LOG_COLOR_I_def LOG_COLOR_D_def LOG_COLOR_V_def
  LOG_COLOR_def LOG_COLOR_RED_def LOG_COLOR_GREEN_def LOG_COLOR_BROWN_def

lemma LOG_COLOR_paste_unfold:
  "LOG_COLOR_paste cfg x =
     (if CONFIG_LOG_COLORS cfg then
        (case x of
           E \<Rightarrow> CHR 0x1B # ''[0;31m''
         | W \<Rightarrow> CHR 0x1B # ''[0;33m''
         | I \<Rightarrow> CHR 0x1B # ''[0;32m''
         | D \<Rightarrow> []
         | V \<Rightarrow> [])
      else [])"
  by (cases x) (simp_all add: color_defs)

lemma stringify_unfold:
  "stringify x = (case x of E \<Rightarrow> ''E'' | W \<Rightarrow> ''W'' | I \<Rightarrow> ''I'' | D \<Rightarrow> ''D'' | V \<Rightarrow> ''V'')"
  by (cases x) simp_all

lemma percent_not_in_prefix:
  "CHR ''%'' \<notin> set (LOG_COLOR_paste cfg x @ stringify x @ '' ('')"
  by (cases x) (simp_all add: LOG_COLOR_paste_unfold)

lemma percent_not_in_suffix:
  "CHR ''%'' \<notin> set (LOG_RESET_COLOR cfg @ [CHR 0x0A])"
  "no_directive_head (LOG_RESET_COLOR cfg @ [CHR 0x0A])"
  by (simp_all add: LOG_RESET_COLOR_def no_directive_head_def is_conversion_def
      is_modifier_def)

text \<open>
  The line a \<^verbatim>\<open>vprintf\<close>-like function writes for \<^verbatim>\<open>LOG_FORMAT\<close>, the timestamp,
  the tag and the caller's arguments, in terms of what it writes for the caller's
  format and arguments alone.
\<close>

lemma vformat_LOG_FORMAT:
  "vformat other (LOG_FORMAT cfg x format) (VInt ts # VStr tag # args) =
     map_option
       (\<lambda>msg. LOG_COLOR_paste cfg x @ stringify x @ '' ('' @ dec_int (sint ts) @ '') '' @ tag
          @ '': '' @ msg @ LOG_RESET_COLOR cfg @ [CHR 0x0A])
       (vformat other format args)"
proof -
  let ?R = "LOG_RESET_COLOR cfg @ [CHR 0x0A]"
  let ?P = "LOG_COLOR_paste cfg x @ stringify x @ '' (''"
  let ?m = "vformat_scan other None format args"
  have tail: "vformat_scan other None (format @ ?R) args = map_option (\<lambda>m. m @ ?R) ?m"
    using scan_literal_suffix [OF percent_not_in_suffix(1) percent_not_in_suffix(2)] by simp
  have mid: "vformat_scan other None (''%d) %s: '' @ format @ ?R) (VInt ts # VStr tag # args)
      = map_option (\<lambda>m. dec_int (sint ts) @ '') '' @ tag @ '': '' @ m @ ?R) ?m"
  proof (cases ?m)
    case None
    with tail have "vformat_scan other None (format @ ?R) args = None" by simp
    with None show ?thesis by (simp add: is_conversion_def convert_def)
  next
    case (Some msg)
    with tail have "vformat_scan other None (format @ ?R) args = Some (msg @ ?R)" by simp
    with Some show ?thesis by (simp add: is_conversion_def convert_def)
  qed
  have pre: "vformat_scan other None (?P @ X) A =
      map_option ((@) ?P) (vformat_scan other None X A)" for X A
    by (rule scan_literal_prefix [OF percent_not_in_prefix])
  have fmt: "LOG_FORMAT cfg x format = ?P @ (''%d) %s: '' @ format @ ?R)"
    by (simp add: LOG_FORMAT_def)
  have "vformat other (LOG_FORMAT cfg x format) (VInt ts # VStr tag # args) =
      map_option ((@) ?P)
        (map_option (\<lambda>m. dec_int (sint ts) @ '') '' @ tag @ '': '' @ m @ ?R) ?m)"
    by (simp only: vformat_def fmt pre mid)
  also have "\<dots> =
      map_option (\<lambda>msg. ?P @ dec_int (sint ts) @ '') '' @ tag @ '': '' @ msg @ ?R) ?m"
    by (simp add: option.map_comp comp_def)
  finally show ?thesis
    by (simp add: vformat_def)
qed

text \<open>The same line with the colours and the letters written out.\<close>

lemma vformat_LOG_FORMAT_explicit:
  "vformat other (LOG_FORMAT cfg x format) (VInt ts # VStr tag # args) =
     map_option
       (\<lambda>msg.
          (if CONFIG_LOG_COLORS cfg then
             (case x of
                E \<Rightarrow> CHR 0x1B # ''[0;31m''
              | W \<Rightarrow> CHR 0x1B # ''[0;33m''
              | I \<Rightarrow> CHR 0x1B # ''[0;32m''
              | D \<Rightarrow> []
              | V \<Rightarrow> [])
           else [])
          @ (case x of E \<Rightarrow> ''E'' | W \<Rightarrow> ''W'' | I \<Rightarrow> ''I'' | D \<Rightarrow> ''D'' | V \<Rightarrow> ''V'')
          @ '' ('' @ dec_int (sint ts) @ '') '' @ tag @ '': '' @ msg
          @ (if CONFIG_LOG_COLORS cfg then CHR 0x1B # ''[0m'' else [])
          @ [CHR 0x0A])
       (vformat other format args)"
  unfolding vformat_LOG_FORMAT
  by (simp only: LOG_COLOR_paste_unfold stringify_unfold LOG_RESET_COLOR_def)

subsection \<open>Runs of requests\<close>

lemma sinks_of_append: "sinks_of (xs @ ys) = sinks_of xs @ sinks_of ys"
  by (induction xs rule: sinks_of.induct) simp_all

lemma sink_perform [simp]: "sink (perform r s) = sink s"
  by (cases r) simp_all

lemma trace_perform:
  "\<exists>new. trace (perform r s) = trace s @ new \<and> set (sinks_of new) \<subseteq> {sink s}"
proof (cases r)
  case (Level_set tag level)
  then show ?thesis by simp
next
  case (Write level tag format args)
  then show ?thesis by (simp add: trace_esp_log_write)
qed

lemma sink_perform_all [simp]: "sink (perform_all rs s) = sink s"
  by (induction rs arbitrary: s) simp_all

lemma trace_perform_all:
  "\<exists>new. trace (perform_all rs s) = trace s @ new \<and> set (sinks_of new) \<subseteq> {sink s}"
proof (induction rs arbitrary: s)
  case Nil
  show ?case by simp
next
  case (Cons r rs)
  obtain n1 where n1: "trace (perform r s) = trace s @ n1" "set (sinks_of n1) \<subseteq> {sink s}"
    using trace_perform by blast
  obtain n2 where n2: "trace (perform_all rs (perform r s)) = trace (perform r s) @ n2"
      "set (sinks_of n2) \<subseteq> {sink (perform r s)}"
    using Cons.IH by blast
  have "trace (perform_all (r # rs) s) = trace s @ (n1 @ n2)"
    using n1 n2 by simp
  moreover have "set (sinks_of (n1 @ n2)) \<subseteq> {sink s}"
    using n1 n2 by (simp add: sinks_of_append)
  ultimately show ?case by blast
qed

subsection \<open>The millisecond count along a run\<close>

lemma source_ms_perform [simp]: "source_ms (perform r s) = source_ms s"
  by (cases r) (simp_all add: source_ms_def esp_log_level_set_def esp_log_write_def Let_def)

lemma source_ms_happen: "source_ms s \<le> source_ms (happen h s)"
proof (cases h)
  case (Elapse d)
  then show ?thesis by (simp add: source_ms_def elapse_def)
next
  case Scheduler_start
  then show ?thesis by (simp add: source_ms_def scheduler_start_def)
next
  case (Request r)
  then show ?thesis by simp
qed

lemma source_ms_happen_all: "source_ms s \<le> source_ms (happen_all hs s)"
proof (induction hs arbitrary: s)
  case Nil
  show ?case by simp
next
  case (Cons h hs)
  have "source_ms s \<le> source_ms (happen h s)"
    by (rule source_ms_happen)
  also have "\<dots> \<le> source_ms (happen_all hs (happen h s))"
    by (rule Cons.IH)
  finally show ?case by simp
qed

lemma mod_le_same_div:
  fixes a b n :: nat
  assumes "a \<le> b" and "a div n = b div n"
  shows "a mod n \<le> b mod n"
proof -
  have "a div n * n + a mod n \<le> b div n * n + b mod n"
    by (simp only: div_mult_mod_eq assms(1))
  then have "b div n * n + a mod n \<le> b div n * n + b mod n"
    by (simp only: assms(2))
  then show ?thesis
    by (simp only: add_le_cancel_left)
qed

lemma unat_esp_log_timestamp: "unat (esp_log_timestamp s) = source_ms s mod 2 ^ 32"
  by (simp add: esp_log_timestamp_def unat_of_nat)

subsection \<open>The enumeration of levels\<close>

text \<open>
  C3. The level type is a closed, ordered enumeration: its six enumerators, in the
  order NONE, ERROR, WARN, INFO, DEBUG, VERBOSE, take the consecutive values 0 to 5
  (a higher value is more verbose), they are strictly increasing in that order, and
  the type has no other value.
\<close>

theorem esp_log_level_t_values:
  "map level_value
     [ESP_LOG_NONE, ESP_LOG_ERROR, ESP_LOG_WARN, ESP_LOG_INFO, ESP_LOG_DEBUG, ESP_LOG_VERBOSE]
     = [0, 1, 2, 3, 4, 5]
   \<and> level_value ESP_LOG_NONE < level_value ESP_LOG_ERROR
   \<and> level_value ESP_LOG_ERROR < level_value ESP_LOG_WARN
   \<and> level_value ESP_LOG_WARN < level_value ESP_LOG_INFO
   \<and> level_value ESP_LOG_INFO < level_value ESP_LOG_DEBUG
   \<and> level_value ESP_LOG_DEBUG < level_value ESP_LOG_VERBOSE
   \<and> (UNIV :: esp_log_level_t set)
       = {ESP_LOG_NONE, ESP_LOG_ERROR, ESP_LOG_WARN, ESP_LOG_INFO, ESP_LOG_DEBUG, ESP_LOG_VERBOSE}
   \<and> range level_value = {0..5}"
proof -
  have u: "(UNIV :: esp_log_level_t set)
       = {ESP_LOG_NONE, ESP_LOG_ERROR, ESP_LOG_WARN, ESP_LOG_INFO, ESP_LOG_DEBUG, ESP_LOG_VERBOSE}"
    by (simp add: esp_log_level_t_UNIV esp_log_level_t_enumerators_def)
  have "range level_value = {0, 1, 2, 3, 4, 5}"
    unfolding u by simp
  also have "\<dots> = {0..5::int}"
    by auto
  finally have r: "range level_value = {0..5}" .
  show ?thesis using u r by simp
qed

subsection \<open>Filtering at run time\<close>

text \<open>
  C1. When the level in force for tag \<open>T\<close> (its registry entry, or the default)
  is \<open>L1\<close>, a call of \<^verbatim>\<open>esp_log_write\<close> for \<open>T\<close> at a level \<open>L2\<close> more
  verbose than \<open>L1\<close> adds no output, and a call at \<open>L1\<close> itself, or at any level
  that is not more verbose, hands its format and arguments to the current sink once.
  After \<^verbatim>\<open>esp_log_level_set(T, L1)\<close> the level in force for \<open>T\<close> is \<open>L1\<close>.
\<close>

theorem run_time_filter:
  "level_for_tag s T = L1 \<Longrightarrow>
     outputs (esp_log_write L2 T format args s) =
       (if level_value L1 < level_value L2 then outputs s
        else outputs s @ [Call_sink (sink s) format args])
     \<and> level_for_tag (esp_log_level_set T L1 s') T = L1"
  by (auto simp: outputs_esp_log_write level_for_tag_def esp_log_level_set_def
      split: option.splits)

text \<open>
  The spec's example: after \<^verbatim>\<open>set_level("net", WARN)\<close>, a write at INFO gives no
  output, and a write at WARN or at ERROR gives one line.
\<close>

theorem run_time_filter_witness:
  "level_for_tag net_warn_state ''net'' = ESP_LOG_WARN
   \<and> outputs (esp_log_write ESP_LOG_INFO ''net'' ''x'' [] net_warn_state) = []
   \<and> outputs (esp_log_write ESP_LOG_WARN ''net'' ''x'' [] net_warn_state) =
       [Call_sink 0 ''x'' []]
   \<and> outputs (esp_log_write ESP_LOG_ERROR ''net'' ''x'' [] net_warn_state) =
       [Call_sink 0 ''x'' []]"
  using run_time_filter [OF net_warn_level, of ESP_LOG_INFO "''x''" "[]"]
    run_time_filter [OF net_warn_level, of ESP_LOG_WARN "''x''" "[]"]
    run_time_filter [OF net_warn_level, of ESP_LOG_ERROR "''x''" "[]"]
  by (simp add: net_warn_facts net_warn_level)

subsection \<open>The ceiling of the build\<close>

text \<open>
  C2. When the level of a log macro (\<^verbatim>\<open>ESP_LOGE/W/I/D/V\<close> or
  \<^verbatim>\<open>ESP_EARLY_LOGE/W/I/D/V\<close>) is above the value of \<^verbatim>\<open>LOG_LOCAL_LEVEL\<close>
  (the value after the cast to \<^verbatim>\<open>esp_log_level_t\<close>, where the header casts),
  the build can remove the expansion: its guard compares two constants and is
  false, so folding the constants leaves the empty statement, with no call and no
  test in it, and that statement does what the expansion does. Run as it stands,
  the expansion leaves the whole state as it is for every tag, format, arguments and
  state: nothing enters the trace, so neither \<^verbatim>\<open>esp_log_write\<close> nor
  \<^verbatim>\<open>ets_printf\<close> is called and there is no output. Folding never leaves a test
  and never changes what a statement does.
\<close>

theorem compile_time_ceiling:
  "c_value (LOG_LOCAL_LEVEL cfg) < level_value (static_level x) \<Longrightarrow>
     fold_constants (ESP_LOGx x cfg tag format args) = Skip
     \<and> fold_constants (ESP_EARLY_LOGx x cfg tag format args) = Skip
     \<and> code_size (fold_constants (ESP_LOGx x cfg tag format args)) = 0
     \<and> code_size (fold_constants (ESP_EARLY_LOGx x cfg tag format args)) = 0
     \<and> callees (fold_constants (ESP_LOGx x cfg tag format args)) = []
     \<and> callees (fold_constants (ESP_EARLY_LOGx x cfg tag format args)) = []
     \<and> exec (ESP_LOGx x cfg tag format args) s = s
     \<and> exec (ESP_EARLY_LOGx x cfg tag format args) s = s
     \<and> branches (fold_constants st) = 0
     \<and> exec (fold_constants st) s = exec st s"
proof -
  assume above: "c_value (LOG_LOCAL_LEVEL cfg) < level_value (static_level x)"
  then have g: "\<not> c_ge (LOG_LOCAL_LEVEL cfg) (enumerator (static_level x))"
    by (simp add: c_ge_enumerator)
  have e: "fold_constants (ESP_EARLY_LOGx x cfg tag format args) = Skip"
    using g by (simp add: ESP_EARLY_LOGx_unfold)
  have n: "fold_constants (ESP_LOGx x cfg tag format args) = Skip"
    using g by (simp add: ESP_LOGx_unfold ESP_EARLY_LOGx_unfold)
  have xe: "exec (ESP_EARLY_LOGx x cfg tag format args) s = s"
    using exec_fold_constants [of "ESP_EARLY_LOGx x cfg tag format args" s] e by simp
  have xn: "exec (ESP_LOGx x cfg tag format args) s = s"
    using exec_fold_constants [of "ESP_LOGx x cfg tag format args" s] n by simp
  show ?thesis
    by (simp add: e n xe xn branches_fold_constants exec_fold_constants)
qed

theorem compile_time_ceiling_witness:
  "c_value (LOG_LOCAL_LEVEL app_config) < level_value (static_level D)
   \<and> fold_constants (ESP_LOGx D app_config ''net'' ''x'' []) = Skip
   \<and> fold_constants (ESP_EARLY_LOGx D app_config ''net'' ''x'' []) = Skip
   \<and> exec (ESP_LOGx D app_config ''net'' ''x'' []) early_state = early_state
   \<and> exec (ESP_EARLY_LOGx D app_config ''net'' ''x'' []) early_state = early_state"
  using compile_time_ceiling [of app_config D "''net''" "''x''" "[]" early_state] by simp

subsection \<open>Setting levels\<close>

text \<open>
  C4. \<^verbatim>\<open>esp_log_level_set\<close> with the tag \<^verbatim>\<open>"*"\<close> gives every tag that has an
  entry in the registry the new level (and leaves tags without an entry without
  one); with any other tag it sets that tag's entry and changes no other entry and
  not the default. It is a total function on states: there is no error result.
\<close>

theorem esp_log_level_set_registry:
  "registry (esp_log_level_set ''*'' level s) t = map_option (\<lambda>old. level) (registry s t)
   \<and> (registry s t \<noteq> None \<longrightarrow> level_for_tag (esp_log_level_set ''*'' level s) t = level)
   \<and> (tag \<noteq> ''*'' \<longrightarrow>
        registry (esp_log_level_set tag level s) t =
          (if t = tag then Some level else registry s t)
        \<and> level_for_tag (esp_log_level_set tag level s) t =
          (if t = tag then level else level_for_tag s t)
        \<and> default_level (esp_log_level_set tag level s) = default_level s)"
  by (auto simp: esp_log_level_set_def level_for_tag_def split: option.splits)

theorem esp_log_level_set_registry_witness:
  "registry net_warn_state ''net'' \<noteq> None
   \<and> ''dhcpc'' \<noteq> ''*''
   \<and> registry (esp_log_level_set ''*'' ESP_LOG_ERROR net_warn_state) ''net'' = Some ESP_LOG_ERROR
   \<and> level_for_tag (esp_log_level_set ''*'' ESP_LOG_ERROR net_warn_state) ''net'' = ESP_LOG_ERROR
   \<and> registry (esp_log_level_set ''dhcpc'' ESP_LOG_INFO net_warn_state) ''net'' = Some ESP_LOG_WARN
   \<and> level_for_tag (esp_log_level_set ''dhcpc'' ESP_LOG_INFO net_warn_state) ''net'' = ESP_LOG_WARN
   \<and> level_for_tag (esp_log_level_set ''dhcpc'' ESP_LOG_INFO net_warn_state) ''dhcpc'' = ESP_LOG_INFO"
  using esp_log_level_set_registry [of ESP_LOG_ERROR net_warn_state "''net''" "''dhcpc''"]
    esp_log_level_set_registry [of ESP_LOG_INFO net_warn_state "''net''" "''dhcpc''"]
    esp_log_level_set_registry [of ESP_LOG_INFO net_warn_state "''dhcpc''" "''dhcpc''"]
  by (simp add: net_warn_facts net_warn_level)

subsection \<open>The line a log call produces\<close>



subsection \<open>The sink\<close>

text \<open>
  C6. The state holds one sink. \<^verbatim>\<open>esp_log_set_vprintf\<close> makes its argument the
  sink and leaves the trace as it is, so no earlier write is moved to the new sink;
  in any run of writes and level settings after it, the trace so far stays a prefix
  and every sink call that is added goes to the new sink. One write calls at most
  one sink: the one installed when it runs.
\<close>

theorem sink_swap:
  "sink (esp_log_set_vprintf func s) = func
   \<and> trace (esp_log_set_vprintf func s) = trace s
   \<and> take (length (trace s)) (trace (perform_all rs (esp_log_set_vprintf func s))) = trace s
   \<and> set (sinks_of (drop (length (trace s))
        (trace (perform_all rs (esp_log_set_vprintf func s))))) \<subseteq> {func}
   \<and> sinks_of (drop (length (trace s)) (trace (esp_log_write level tag format args s))) =
       (if level_value level > level_value (level_for_tag s tag) then [] else [sink s])"
proof -
  let ?s = "esp_log_set_vprintf func s"
  have a: "sink ?s = func" "trace ?s = trace s"
    by (simp_all add: esp_log_set_vprintf_def)
  obtain new where new: "trace (perform_all rs ?s) = trace ?s @ new"
      "set (sinks_of new) \<subseteq> {sink ?s}"
    using trace_perform_all by blast
  have b: "take (length (trace s)) (trace (perform_all rs ?s)) = trace s"
    using new a by simp
  have c: "set (sinks_of (drop (length (trace s)) (trace (perform_all rs ?s)))) \<subseteq> {func}"
    using new a by simp
  have d: "sinks_of (drop (length (trace s)) (trace (esp_log_write level tag format args s))) =
       (if level_value level > level_value (level_for_tag s tag) then [] else [sink s])"
    by (simp add: trace_esp_log_write)
  show ?thesis using a b c d by simp
qed

text \<open>
  One write to the first sink (address 0), then the swap to address 7 and three more
  writes, the second of them silenced by a level setting.
\<close>

theorem sink_swap_witness:
  "trace (perform_all [Write ESP_LOG_ERROR ''net'' ''b'' [], Level_set ''net'' ESP_LOG_NONE,
       Write ESP_LOG_ERROR ''net'' ''c'' [], Write ESP_LOG_WARN ''wifi'' ''d'' []]
     (esp_log_set_vprintf 7 (esp_log_write ESP_LOG_ERROR ''net'' ''a'' [] early_state))) =
   [Call_esp_log_write ESP_LOG_ERROR ''net'' ''a'' [], Call_sink 0 ''a'' [],
    Call_esp_log_write ESP_LOG_ERROR ''net'' ''b'' [], Call_sink 7 ''b'' [],
    Call_esp_log_write ESP_LOG_ERROR ''net'' ''c'' [],
    Call_esp_log_write ESP_LOG_WARN ''wifi'' ''d'' [], Call_sink 7 ''d'' []]
   \<and> set (sinks_of (drop (length (trace (esp_log_write ESP_LOG_ERROR ''net'' ''a'' [] early_state)))
        (trace (perform_all [Write ESP_LOG_ERROR ''net'' ''b'' [], Level_set ''net'' ESP_LOG_NONE,
            Write ESP_LOG_ERROR ''net'' ''c'' [], Write ESP_LOG_WARN ''wifi'' ''d'' []]
          (esp_log_set_vprintf 7 (esp_log_write ESP_LOG_ERROR ''net'' ''a'' [] early_state))))))
       \<subseteq> {7}"
proof -
  have e: "trace (perform_all [Write ESP_LOG_ERROR ''net'' ''b'' [], Level_set ''net'' ESP_LOG_NONE,
       Write ESP_LOG_ERROR ''net'' ''c'' [], Write ESP_LOG_WARN ''wifi'' ''d'' []]
     (esp_log_set_vprintf 7 (esp_log_write ESP_LOG_ERROR ''net'' ''a'' [] early_state))) =
   [Call_esp_log_write ESP_LOG_ERROR ''net'' ''a'' [], Call_sink 0 ''a'' [],
    Call_esp_log_write ESP_LOG_ERROR ''net'' ''b'' [], Call_sink 7 ''b'' [],
    Call_esp_log_write ESP_LOG_ERROR ''net'' ''c'' [],
    Call_esp_log_write ESP_LOG_WARN ''wifi'' ''d'' [], Call_sink 7 ''d'' []]"
    by (simp add: trace_esp_log_write esp_log_set_vprintf_def level_for_tag_def
        esp_log_level_set_def early_state_def)
  show ?thesis
    using sink_swap [of 7 "esp_log_write ESP_LOG_ERROR ''net'' ''a'' [] early_state"
        "[Write ESP_LOG_ERROR ''net'' ''b'' [], Level_set ''net'' ESP_LOG_NONE,
          Write ESP_LOG_ERROR ''net'' ''c'' [], Write ESP_LOG_WARN ''wifi'' ''d'' []]"]
      e by simp
qed

subsection \<open>The timestamp\<close>

text \<open>
  C7. Across consecutive calls in one execution context, whatever happens between
  them (time passes, the scheduler starts and the tick source takes over from the
  cycle source, requests are served), the millisecond count
  \<^verbatim>\<open>esp_log_timestamp\<close> reads never goes down; its result is that count modulo
  \<open>2^32\<close>, so the result itself does not decrease from one call to the next as
  long as the count has not passed a multiple of \<open>2^32\<close> in between, and when it
  has, the 32-bit value has wrapped around.
\<close>

theorem timestamp_monotone_until_wrap:
  "source_ms (happen_all hs s) div 2 ^ 32 = source_ms s div 2 ^ 32 \<Longrightarrow>
     esp_log_timestamp s \<le> esp_log_timestamp (happen_all hs s)
     \<and> source_ms s \<le> source_ms (happen_all hs s)
     \<and> unat (esp_log_timestamp s') = source_ms s' mod 2 ^ 32"
proof -
  assume same: "source_ms (happen_all hs s) div 2 ^ 32 = source_ms s div 2 ^ 32"
  have le: "source_ms s \<le> source_ms (happen_all hs s)"
    by (rule source_ms_happen_all)
  have "source_ms s mod 2 ^ 32 \<le> source_ms (happen_all hs s) mod 2 ^ 32"
    using le same by (intro mod_le_same_div) simp_all
  then have "esp_log_timestamp s \<le> esp_log_timestamp (happen_all hs s)"
    by (simp add: word_le_nat_alt unat_esp_log_timestamp)
  then show ?thesis
    using le by (simp add: unat_esp_log_timestamp)
qed

text \<open>
  A call at 5 ms on the cycle counter; then 3 ms pass, the scheduler starts, a line
  is written and 10 ms pass: the next call reads 18. One millisecond after
  \<open>2^32 - 1\<close> the result is 0.
\<close>

theorem timestamp_monotone_until_wrap_witness:
  "source_ms (happen_all [Elapse 3, Scheduler_start,
       Request (Write ESP_LOG_ERROR ''net'' ''x'' []), Elapse 10] early_state) div 2 ^ 32
     = source_ms early_state div 2 ^ 32
   \<and> esp_log_timestamp early_state = 5
   \<and> esp_log_timestamp (happen_all [Elapse 3, Scheduler_start,
       Request (Write ESP_LOG_ERROR ''net'' ''x'' []), Elapse 10] early_state) = 18
   \<and> esp_log_timestamp early_state
       \<le> esp_log_timestamp (happen_all [Elapse 3, Scheduler_start,
            Request (Write ESP_LOG_ERROR ''net'' ''x'' []), Elapse 10] early_state)
   \<and> esp_log_timestamp before_wrap_state = 4294967295
   \<and> unat (esp_log_timestamp (happen (Elapse 1) before_wrap_state)) = 0"
proof -
  let ?hs = "[Elapse 3, Scheduler_start, Request (Write ESP_LOG_ERROR ''net'' ''x'' []),
    Elapse 10]"
  have a: "source_ms early_state = 5"
    by (simp add: source_ms_def early_state_def)
  have b: "source_ms (happen_all ?hs early_state) = 18"
    by (simp add: source_ms_def early_state_def elapse_def scheduler_start_def
        esp_log_write_def Let_def)
  have h: "source_ms (happen_all ?hs early_state) div 2 ^ 32 = source_ms early_state div 2 ^ 32"
    by (simp only: a b) simp
  have c: "esp_log_timestamp early_state = 5"
      "esp_log_timestamp (happen_all ?hs early_state) = 18"
    by (simp_all only: esp_log_timestamp_def a b) simp_all
  have w: "source_ms (happen (Elapse 1) before_wrap_state) = 4294967296"
      "esp_log_timestamp before_wrap_state = 4294967295"
    by (simp_all add: source_ms_def before_wrap_state_def early_state_def elapse_def
        esp_log_timestamp_def)
  show ?thesis
    using timestamp_monotone_until_wrap [OF h, of "happen (Elapse 1) before_wrap_state"]
    by (intro conjI) (simp_all only: h c w, simp_all)
qed

subsection \<open>Return types\<close>

text \<open>
  C8, as stated, fails: \<^verbatim>\<open>esp_log_write\<close> is declared \<^verbatim>\<open>void\<close>; it does not
  return the count that the sink's type returns.
\<close>

theorem write_returns_count_counterexample:
  "returns esp_log_write_signature = C_void
   \<and> returns esp_log_write_signature \<noteq> returns vprintf_like_t_signature"
  by (simp add: esp_log_write_signature_def vprintf_like_t_signature_def)

text \<open>
  C8, amended. \<^verbatim>\<open>esp_log_level_set\<close>, \<^verbatim>\<open>esp_log_set_vprintf\<close> and
  \<^verbatim>\<open>esp_log_write\<close> all return \<^verbatim>\<open>void\<close>; the signed count is the result of
  the sink's function type \<^verbatim>\<open>vprintf_like_t\<close> only.
\<close>

theorem facade_return_types:
  "returns esp_log_level_set_signature = C_void
   \<and> returns esp_log_set_vprintf_signature = C_void
   \<and> returns esp_log_write_signature = C_void
   \<and> returns vprintf_like_t_signature = C_int"
  by (simp add: esp_log_level_set_signature_def esp_log_set_vprintf_signature_def
      esp_log_write_signature_def vprintf_like_t_signature_def)

subsection \<open>The early variant\<close>

text \<open>
  C9. For every level, the early macro calls \<^verbatim>\<open>ets_printf\<close> and, for its
  argument, \<^verbatim>\<open>esp_log_timestamp\<close>, and nothing else: when its level is within
  the ceiling of the build the trace gains these two calls, otherwise nothing; there
  is no entry into \<^verbatim>\<open>esp_log_write\<close> and no call of the installed sink, and
  which sink is installed makes no difference. \<^verbatim>\<open>ets_printf\<close> writes the line:
  colour, letter, timestamp, tag, message, reset, newline. The macro can be used
  exactly where \<^verbatim>\<open>ets_printf\<close> and \<^verbatim>\<open>esp_log_timestamp\<close> can: it needs
  nothing of what \<^verbatim>\<open>esp_log_write\<close> or a sink may need (heap, syscalls,
  scheduler).
\<close>

theorem early_variant_bypasses_sink:
  "trace (exec (ESP_EARLY_LOGx x cfg tag format args) s) =
     trace s @
       (if level_value (static_level x) \<le> c_value (LOG_LOCAL_LEVEL cfg) then
          [Call_esp_log_timestamp,
           Call_ets_printf (LOG_FORMAT cfg x format)
             (VInt (esp_log_timestamp s) # VStr tag # args)]
        else [])
   \<and> rendered other (Call_ets_printf (LOG_FORMAT cfg x format)
                        (VInt (esp_log_timestamp s) # VStr tag # args)) =
       map_option
         (\<lambda>msg.
            (if CONFIG_LOG_COLORS cfg then
               (case x of
                  E \<Rightarrow> CHR 0x1B # ''[0;31m''
                | W \<Rightarrow> CHR 0x1B # ''[0;33m''
                | I \<Rightarrow> CHR 0x1B # ''[0;32m''
                | D \<Rightarrow> []
                | V \<Rightarrow> [])
             else [])
            @ (case x of E \<Rightarrow> ''E'' | W \<Rightarrow> ''W'' | I \<Rightarrow> ''I'' | D \<Rightarrow> ''D'' | V \<Rightarrow> ''V'')
            @ '' ('' @ dec_int (sint (esp_log_timestamp s)) @ '') '' @ tag @ '': '' @ msg
            @ (if CONFIG_LOG_COLORS cfg then CHR 0x1B # ''[0m'' else [])
            @ [CHR 0x0A])
         (vformat other format args)
   \<and> exec (ESP_EARLY_LOGx x cfg tag format args) (esp_log_set_vprintf func s) =
       esp_log_set_vprintf func (exec (ESP_EARLY_LOGx x cfg tag format args) s)
   \<and> callees (ESP_EARLY_LOGx x cfg tag format args) = [Fn_ets_printf, Fn_esp_log_timestamp]
   \<and> usable needs available (ESP_EARLY_LOGx x cfg tag format args) =
       (needs Fn_ets_printf \<subseteq> available \<and> needs Fn_esp_log_timestamp \<subseteq> available)"
proof (intro conjI)
  show "trace (exec (ESP_EARLY_LOGx x cfg tag format args) s) =
     trace s @
       (if level_value (static_level x) \<le> c_value (LOG_LOCAL_LEVEL cfg) then
          [Call_esp_log_timestamp,
           Call_ets_printf (LOG_FORMAT cfg x format)
             (VInt (esp_log_timestamp s) # VStr tag # args)]
        else [])"
    by (simp add: exec_ESP_EARLY_LOGx ets_printf_def)
  show "rendered other (Call_ets_printf (LOG_FORMAT cfg x format)
                        (VInt (esp_log_timestamp s) # VStr tag # args)) =
       map_option
         (\<lambda>msg.
            (if CONFIG_LOG_COLORS cfg then
               (case x of
                  E \<Rightarrow> CHR 0x1B # ''[0;31m''
                | W \<Rightarrow> CHR 0x1B # ''[0;33m''
                | I \<Rightarrow> CHR 0x1B # ''[0;32m''
                | D \<Rightarrow> []
                | V \<Rightarrow> [])
             else [])
            @ (case x of E \<Rightarrow> ''E'' | W \<Rightarrow> ''W'' | I \<Rightarrow> ''I'' | D \<Rightarrow> ''D'' | V \<Rightarrow> ''V'')
            @ '' ('' @ dec_int (sint (esp_log_timestamp s)) @ '') '' @ tag @ '': '' @ msg
            @ (if CONFIG_LOG_COLORS cfg then CHR 0x1B # ''[0m'' else [])
            @ [CHR 0x0A])
         (vformat other format args)"
    by (simp only: rendered.simps vformat_LOG_FORMAT_explicit)
  show "exec (ESP_EARLY_LOGx x cfg tag format args) (esp_log_set_vprintf func s) =
       esp_log_set_vprintf func (exec (ESP_EARLY_LOGx x cfg tag format args) s)"
    by (simp add: exec_ESP_EARLY_LOGx ets_printf_def esp_log_set_vprintf_def
        esp_log_timestamp_def source_ms_def)
  show c: "callees (ESP_EARLY_LOGx x cfg tag format args) =
      [Fn_ets_printf, Fn_esp_log_timestamp]"
    by (simp add: ESP_EARLY_LOGx_unfold)
  show "usable needs available (ESP_EARLY_LOGx x cfg tag format args) =
       (needs Fn_ets_printf \<subseteq> available \<and> needs Fn_esp_log_timestamp \<subseteq> available)"
    by (simp add: usable_def c)
qed

text \<open>
  A warning from the heap initialisation code, before anything is initialised; the
  normal macro could not be used there under the same requirements.
\<close>

theorem early_variant_bypasses_sink_witness:
  "trace (exec (ESP_EARLY_LOGx W app_config ''heap'' ''x'' []) early_state) =
     [Call_esp_log_timestamp,
      Call_ets_printf (LOG_FORMAT app_config W ''x'') [VInt 5, VStr ''heap'']]
   \<and> rendered plain_only
        (Call_ets_printf (LOG_FORMAT app_config W ''x'') [VInt 5, VStr ''heap'']) =
       Some (CHR 0x1B # ''[0;33mW (5) heap: x'' @ CHR 0x1B # ''[0m'' @ [CHR 0x0A])
   \<and> usable early_needs {} (ESP_EARLY_LOGx W app_config ''heap'' ''x'' [])
   \<and> \<not> usable early_needs {} (ESP_LOGx W app_config ''heap'' ''x'' [])"
proof -
  have m: "vformat plain_only ''x'' [] = Some ''x''"
    by code_simp
  have d: "dec_int 5 = ''5''"
    by code_simp
  have n: "\<not> usable early_needs {} (ESP_LOGx W app_config ''heap'' ''x'' [])"
    by (simp add: usable_def ESP_LOGW_def)
  show ?thesis
    using early_variant_bypasses_sink [where x = W and cfg = app_config and tag = "''heap''"
        and format = "''x''" and args = "[]" and s = early_state and other = plain_only
        and needs = early_needs and available = "{}"] n
    by (simp add: early_facts m d)
qed

text \<open>
  C10. An early macro whose level is within the ceiling of the build writes its line
  through \<^verbatim>\<open>ets_printf\<close> whatever \<^verbatim>\<open>esp_log_level_set\<close> call came before, and
  the line is the full one: colour, letter, timestamp, tag, message, reset, newline.
  Its effect is the same for every registry and default level, so it does not read
  them. In a bootloader build each \<^verbatim>\<open>ESP_LOGx\<close> is its \<^verbatim>\<open>ESP_EARLY_LOGx\<close>.
\<close>

theorem early_macros_ignore_registry:
  "level_value (static_level x) \<le> c_value (LOG_LOCAL_LEVEL cfg) \<Longrightarrow>
     outputs (exec (ESP_EARLY_LOGx x cfg tag format args) (esp_log_level_set t l s)) =
       outputs s @
         [Call_ets_printf (LOG_FORMAT cfg x format)
            (VInt (esp_log_timestamp s) # VStr tag # args)]
     \<and> rendered other (Call_ets_printf (LOG_FORMAT cfg x format)
                          (VInt (esp_log_timestamp s) # VStr tag # args)) =
         map_option
           (\<lambda>msg.
            (if CONFIG_LOG_COLORS cfg then
               (case x of
                  E \<Rightarrow> CHR 0x1B # ''[0;31m''
                | W \<Rightarrow> CHR 0x1B # ''[0;33m''
                | I \<Rightarrow> CHR 0x1B # ''[0;32m''
                | D \<Rightarrow> []
                | V \<Rightarrow> [])
             else [])
            @ (case x of E \<Rightarrow> ''E'' | W \<Rightarrow> ''W'' | I \<Rightarrow> ''I'' | D \<Rightarrow> ''D'' | V \<Rightarrow> ''V'')
            @ '' ('' @ dec_int (sint (esp_log_timestamp s)) @ '') '' @ tag @ '': '' @ msg
            @ (if CONFIG_LOG_COLORS cfg then CHR 0x1B # ''[0m'' else [])
            @ [CHR 0x0A])
           (vformat other format args)
     \<and> exec (ESP_EARLY_LOGx x cfg tag format args) (s\<lparr>registry := r, default_level := d\<rparr>) =
         (exec (ESP_EARLY_LOGx x cfg tag format args) s)\<lparr>registry := r, default_level := d\<rparr>
     \<and> ESP_LOGx x (cfg\<lparr>BOOTLOADER_BUILD := True\<rparr>) =
         ESP_EARLY_LOGx x (cfg\<lparr>BOOTLOADER_BUILD := True\<rparr>)"
proof (intro conjI)
  assume c: "level_value (static_level x) \<le> c_value (LOG_LOCAL_LEVEL cfg)"
  then show "outputs (exec (ESP_EARLY_LOGx x cfg tag format args) (esp_log_level_set t l s)) =
       outputs s @
         [Call_ets_printf (LOG_FORMAT cfg x format)
            (VInt (esp_log_timestamp s) # VStr tag # args)]"
    by (simp add: exec_ESP_EARLY_LOGx ets_printf_def outputs_def)
  show "rendered other (Call_ets_printf (LOG_FORMAT cfg x format)
                          (VInt (esp_log_timestamp s) # VStr tag # args)) =
         map_option
           (\<lambda>msg.
            (if CONFIG_LOG_COLORS cfg then
               (case x of
                  E \<Rightarrow> CHR 0x1B # ''[0;31m''
                | W \<Rightarrow> CHR 0x1B # ''[0;33m''
                | I \<Rightarrow> CHR 0x1B # ''[0;32m''
                | D \<Rightarrow> []
                | V \<Rightarrow> [])
             else [])
            @ (case x of E \<Rightarrow> ''E'' | W \<Rightarrow> ''W'' | I \<Rightarrow> ''I'' | D \<Rightarrow> ''D'' | V \<Rightarrow> ''V'')
            @ '' ('' @ dec_int (sint (esp_log_timestamp s)) @ '') '' @ tag @ '': '' @ msg
            @ (if CONFIG_LOG_COLORS cfg then CHR 0x1B # ''[0m'' else [])
            @ [CHR 0x0A])
           (vformat other format args)"
    by (simp only: rendered.simps vformat_LOG_FORMAT_explicit)
  show "exec (ESP_EARLY_LOGx x cfg tag format args) (s\<lparr>registry := r, default_level := d\<rparr>) =
         (exec (ESP_EARLY_LOGx x cfg tag format args) s)\<lparr>registry := r, default_level := d\<rparr>"
    by (simp add: exec_ESP_EARLY_LOGx ets_printf_def esp_log_timestamp_def source_ms_def)
  show "ESP_LOGx x (cfg\<lparr>BOOTLOADER_BUILD := True\<rparr>) =
         ESP_EARLY_LOGx x (cfg\<lparr>BOOTLOADER_BUILD := True\<rparr>)"
    by (intro ext) (simp add: ESP_LOGx_unfold)
qed

text \<open>
  In the bootloader build (ceiling WARN) an error line comes out in full although
  the tag, or every tag, has been set to NONE.
\<close>

theorem early_macros_ignore_registry_witness:
  "level_value (static_level E) \<le> c_value (LOG_LOCAL_LEVEL bootloader_config)
   \<and> outputs (exec (ESP_EARLY_LOGx E bootloader_config ''net'' ''x'' [])
        (esp_log_level_set ''net'' ESP_LOG_NONE early_state)) =
       [Call_ets_printf (LOG_FORMAT bootloader_config E ''x'') [VInt 5, VStr ''net'']]
   \<and> outputs (exec (ESP_LOGx E bootloader_config ''net'' ''x'' [])
        (esp_log_level_set ''*'' ESP_LOG_NONE early_state)) =
       [Call_ets_printf (LOG_FORMAT bootloader_config E ''x'') [VInt 5, VStr ''net'']]
   \<and> rendered plain_only
        (Call_ets_printf (LOG_FORMAT bootloader_config E ''x'') [VInt 5, VStr ''net'']) =
       Some (CHR 0x1B # ''[0;31mE (5) net: x'' @ CHR 0x1B # ''[0m'' @ [CHR 0x0A])"
proof -
  have b: "bootloader_config\<lparr>BOOTLOADER_BUILD := True\<rparr> = bootloader_config"
    by (simp add: bootloader_config_def)
  have h: "level_value (static_level E) \<le> c_value (LOG_LOCAL_LEVEL bootloader_config)"
    by simp
  have m: "vformat plain_only ''x'' [] = Some ''x''"
    by code_simp
  have d: "dec_int 5 = ''5''"
    by code_simp
  note inst = early_macros_ignore_registry [OF h, where tag = "''net''" and format = "''x''"
      and args = "[]" and l = ESP_LOG_NONE and s = early_state and other = plain_only]
  show ?thesis
    using inst [where t = "''net''"] inst [where t = "''*''"] h
    by (simp add: b early_facts m d)
qed

end
